theory Spec2Isabelle
  imports Complex_Main "HOL-Library.Multiset" "HOL-Library.Char_ord" "HOL-Library.List_Lexorder"
    "HOL-Library.AList"
begin

section \<open>The OpenAI router of big-agi (src/modules/llms/openai/openai.router.ts)\<close>

text \<open>
  The router translates a chat request into the provider's wire format, posts it, and maps
  the answer back. Its functions are embedded one by one, under their own names.

  Conventions of the embedding:
  \<^item> a JavaScript string is a list of code units, written as a HOL \<open>string\<close>; a falsy string
    is the empty one;
  \<^item> a field that may be absent is an option, \<open>None\<close> when it is \<open>undefined\<close>; the
    \<open>content\<close> of a response message, of type \<open>string | null\<close>, is an option too, and
    there \<open>None\<close> is \<open>null\<close>: a message without the key \<open>content\<close> is outside the type
    the functions are declared over, and outside the embedding;
  \<^item> a \<open>throw\<close> is the left injection of a sum, so every function that can throw returns
    \<open>js_error + 'a\<close>;
  \<^item> what the platform supplies and the file only calls (\<open>fetch\<close>, \<open>process.env\<close>,
    \<open>JSON.parse\<close>, \<open>String.prototype.localeCompare\<close>, the conversion of a number to
    a string) is a parameter of the function that calls it.
\<close>

subsection \<open>Strings\<close>

definition startsWith :: "string \<Rightarrow> string \<Rightarrow> bool" where
  "startsWith s p = (take (length p) s = p)"

definition endsWith :: "string \<Rightarrow> string \<Rightarrow> bool" where
  "endsWith s p = (length p \<le> length s \<and> drop (length s - length p) s = p)"


text \<open>\<open>s.split(c)\<close> for a one-character separator: never empty, one piece more than
  there are separators.\<close>

fun split :: "string \<Rightarrow> char \<Rightarrow> string list" where
  "split [] c = [[]]"
| "split (x # xs) c =
     (if x = c then [] # split xs c
      else (case split xs c of [] \<Rightarrow> [[x]] | p # ps \<Rightarrow> (x # p) # ps))"

text \<open>\<open>a || b\<close> on strings, and on a string and an environment variable that may be unset.\<close>

definition or_else :: "string \<Rightarrow> string \<Rightarrow> string" where
  "or_else a b = (if a \<noteq> [] then a else b)"

definition env_or :: "string option \<Rightarrow> string \<Rightarrow> string" where
  "env_or v b = (case v of None \<Rightarrow> b | Some a \<Rightarrow> or_else a b)"

text \<open>The decimal numeral of a natural number, as a template literal prints an array length.\<close>

definition digit_char :: "nat \<Rightarrow> char" where
  "digit_char n = ''0123456789'' ! n"

function string_of_nat :: "nat \<Rightarrow> string" where
  "string_of_nat n =
     (if n < 10 then [digit_char n] else string_of_nat (n div 10) @ [digit_char (n mod 10)])"
  by pat_completeness auto
termination
  by (relation "measure id") auto

declare string_of_nat.simps [simp del]

subsection \<open>Errors\<close>

datatype trpc_code = INTERNAL_SERVER_ERROR | BAD_REQUEST | CLIENT_CLOSED_REQUEST

text \<open>
  What a function of the router can throw: a \<open>TRPCError\<close> with its code and message, the
  plain \<open>Error\<close> of \<open>openAIAccess\<close>, a \<open>TypeError\<close> raised by the engine, or whatever
  \<open>fetch\<close> rejected with (its name and message).
\<close>

datatype js_error =
    TRPCError trpc_code string
  | Error string
  | TypeError
  | Rejected string string

subsection \<open>Access: headers and URL\<close>

record access =
  oaiKey :: string
  oaiOrg :: string
  oaiHost :: string
  heliKey :: string
  moderationCheck :: bool

text \<open>The four variables of \<open>process.env\<close> that \<open>openAIAccess\<close> reads.\<close>

record env =
  OPENAI_API_KEY :: "string option"
  OPENAI_API_ORG_ID :: "string option"
  OPENAI_API_HOST :: "string option"
  HELICONE_API_KEY :: "string option"

record resolved =
  headers :: "(string \<times> string) list"
  url :: string

text \<open>The host before normalisation: the caller's, else the environment's, else the default.\<close>

definition resolve_host :: "env \<Rightarrow> access \<Rightarrow> string" where
  "resolve_host e a = or_else (oaiHost a) (env_or (OPENAI_API_HOST e) ''https://api.openai.com'')"

definition openAIAccess :: "env \<Rightarrow> access \<Rightarrow> string \<Rightarrow> js_error + resolved" where
  "openAIAccess e a apiPath =
     (let key = or_else (oaiKey a) (env_or (OPENAI_API_KEY e) '''') in
      if key = [] then
        Inl (Error ''Missing OpenAI API Key. Add it on the UI (Models Setup) or server side (your deployment).'')
      else
        let org = or_else (oaiOrg a) (env_or (OPENAI_API_ORG_ID e) '''');
            host0 = resolve_host e a;
            host1 = (if \<not> startsWith host0 ''http'' then ''https://'' @ host0 else host0);
            host2 = (if endsWith host1 ''/'' \<and> startsWith apiPath ''/'' then butlast host1 else host1);
            heli = or_else (heliKey a) (env_or (HELICONE_API_KEY e) '''')
        in Inr \<lparr>headers =
                  [(''Authorization'', ''Bearer '' @ key), (''Content-Type'', ''application/json'')]
                  @ (if org \<noteq> [] then [(''OpenAI-Organization'', org)] else [])
                  @ (if heli \<noteq> [] then [(''Helicone-Auth'', ''Bearer '' @ heli)] else []),
                url = host2 @ apiPath\<rparr>)"

subsection \<open>JSON values\<close>

text \<open>
  A value that \<open>JSON.parse\<close> or \<open>response.json()\<close> returns. The number type is left open
  (\<open>'n\<close>): the router only tests a number for truth and prints it, and both operations are
  parameters where they are needed. An object is its list of own properties; a key occurs
  once.
\<close>

datatype 'n json =
    JNull
  | JBool bool
  | JNumber 'n
  | JString string
  | JArray "'n json list"
  | JObject "(string \<times> 'n json) list"

text \<open>Truthiness of a value; \<open>None\<close> is \<open>undefined\<close>.\<close>

fun truthy :: "('n \<Rightarrow> bool) \<Rightarrow> 'n json option \<Rightarrow> bool" where
  "truthy nt None = False"
| "truthy nt (Some JNull) = False"
| "truthy nt (Some (JBool b)) = b"
| "truthy nt (Some (JNumber n)) = nt n"
| "truthy nt (Some (JString s)) = (s \<noteq> [])"
| "truthy nt (Some (JArray xs)) = True"
| "truthy nt (Some (JObject kvs)) = True"

text \<open>
  \<open>v?.k\<close> for a property name \<open>k\<close> that no built-in prototype defines (the router reads
  \<open>error\<close> and \<open>message\<close>): an own property of an object, \<open>undefined\<close> on anything else.
\<close>

fun get_prop :: "'n json option \<Rightarrow> string \<Rightarrow> 'n json option" where
  "get_prop (Some (JObject kvs)) k = map_of kvs k"
| "get_prop _ k = None"

fun join :: "string list \<Rightarrow> string" where
  "join [] = []"
| "join [s] = s"
| "join (s # t # ts) = s @ '','' @ join (t # ts)"

text \<open>
  The string of a value, as a template literal or a call of its \<open>toString\<close> method gives
  it; \<open>None\<close> is a \<open>TypeError\<close>. An array joins the strings of its elements, \<open>null\<close> as
  the empty string. An object without an own \<open>toString\<close> property prints as
  \<open>[object Object]\<close>; an own \<open>toString\<close> property is a JSON value, which is not callable,
  and the conversion throws.
\<close>

fun toString :: "('n \<Rightarrow> string) \<Rightarrow> 'n json \<Rightarrow> string option" where
  "toString ns JNull = Some ''null''"
| "toString ns (JBool b) = Some (if b then ''true'' else ''false'')"
| "toString ns (JNumber n) = Some (ns n)"
| "toString ns (JString s) = Some s"
| "toString ns (JArray xs) =
     (let parts = map (\<lambda>x. if x = JNull then Some [] else toString ns x) xs
      in if None \<in> set parts then None else Some (join (map the parts)))"
| "toString ns (JObject kvs) =
     (if map_of kvs ''toString'' \<noteq> None then None else Some ''[object Object]'')"

subsection \<open>The wire payload\<close>

record model =
  model_id :: string
  model_temperature :: "real option"
  maxTokens :: "real option"

record history_message =
  hist_role :: string
  hist_content :: string

datatype property_type = PString | PNumber | PInteger | PBoolean

record property =
  ptype :: property_type
  pdescription :: "string option"
  penum :: "string list option"

record parameters =
  properties :: "(string \<times> property) list"
  required :: "string list option"

record function_def =
  fname :: string
  fdescription :: "string option"
  fparameters :: "parameters option"

text \<open>The request body; a field that the object spread leaves out is \<open>None\<close>.\<close>

record request =
  model :: string
  messages :: "history_message list"
  wire_functions :: "function_def list option"
  wire_function_call :: "string option"
  temperature :: "real option"
  max_tokens :: "real option"
  n :: nat
  stream :: bool

text \<open>
  \<open>...(x && {...})\<close> spreads the object when \<open>x\<close> is truthy. An array is truthy, the
  empty one too; a number is truthy unless it is zero.
\<close>

definition openAIChatCompletionPayload ::
  "model \<Rightarrow> history_message list \<Rightarrow> function_def list option \<Rightarrow> nat \<Rightarrow> bool \<Rightarrow> request" where
  "openAIChatCompletionPayload m history fs k s =
     \<lparr>model = model_id m,
      messages = history,
      wire_functions = fs,
      wire_function_call = (case fs of None \<Rightarrow> None | Some _ \<Rightarrow> Some ''auto''),
      temperature = (case model_temperature m of None \<Rightarrow> None | Some t \<Rightarrow> if t \<noteq> 0 then Some t else None),
      max_tokens = (case maxTokens m of None \<Rightarrow> None | Some t \<Rightarrow> if t \<noteq> 0 then Some t else None),
      n = k,
      stream = s\<rparr>"

subsection \<open>Responses\<close>

text \<open>What \<open>response.json()\<close> rejects with: an error object, its name and its message.\<close>

record js_exn =
  exn_name :: string
  exn_message :: string

text \<open>\<open>Error.prototype.toString\<close>.\<close>

definition exn_toString :: "js_exn \<Rightarrow> string" where
  "exn_toString x =
     (if exn_name x = [] then exn_message x
      else if exn_message x = [] then exn_name x
      else exn_name x @ '': '' @ exn_message x)"

text \<open>
  The response of a POST, by its \<open>ok\<close> flag, with the outcome of \<open>response.json()\<close>:
  \<open>openaiPOST\<close> reads the body of a failed request as \<open>any\<close> and the body of a successful
  one at the type \<open>TOut\<close> of its caller.
\<close>

datatype ('n, 'a) response =
    NotOk string "js_exn + 'n json"
  | IsOk "js_exn + 'a"

record 'b request_init =
  init_headers :: "(string \<times> string) list"
  init_method :: string
  init_body :: "'b option"

text \<open>
  The text in the message of a failed request:
  \<open>error?.error?.message || error?.error || error?.toString() || 'Unknown error'\<close>, printed
  by the template literal. \<open>None\<close> is the \<open>TypeError\<close> of a value that has no string.
\<close>

definition error_text :: "('n \<Rightarrow> bool) \<Rightarrow> ('n \<Rightarrow> string) \<Rightarrow> 'n json \<Rightarrow> string option" where
  "error_text nt ns e =
     (let m1 = get_prop (get_prop (Some e) ''error'') ''message'';
          m2 = get_prop (Some e) ''error''
      in case (if truthy nt m1 then m1 else if truthy nt m2 then m2 else None) of
           Some v \<Rightarrow> toString ns v
         | None \<Rightarrow>
             (case toString ns e of
                None \<Rightarrow> None
              | Some s \<Rightarrow> Some (if s \<noteq> [] then s else ''Unknown error'')))"

definition openaiPOST ::
  "env \<Rightarrow> (string \<Rightarrow> 'b request_init \<Rightarrow> js_error + ('n, 'a) response) \<Rightarrow>
   ('n \<Rightarrow> bool) \<Rightarrow> ('n \<Rightarrow> string) \<Rightarrow> access \<Rightarrow> 'b \<Rightarrow> string \<Rightarrow> js_error + 'a" where
  "openaiPOST e fetch nt ns a body apiPath =
     (case openAIAccess e a apiPath of
        Inl err \<Rightarrow> Inl err
      | Inr r \<Rightarrow>
          (case fetch (url r) \<lparr>init_headers = headers r, init_method = ''POST'', init_body = Some body\<rparr> of
             Inl err \<Rightarrow> Inl err
           | Inr (NotOk statusText j) \<Rightarrow>
               (let error = (case j of Inl x \<Rightarrow> None | Inr v \<Rightarrow> Some v) in
                if truthy nt error then
                  (case error_text nt ns (the error) of
                     None \<Rightarrow> Inl TypeError
                   | Some t \<Rightarrow> Inl (TRPCError BAD_REQUEST (''[OpenAI Issue] '' @ t)))
                else Inl (TRPCError BAD_REQUEST (''[Issue] '' @ statusText)))
           | Inr (IsOk j) \<Rightarrow>
               (case j of
                  Inl x \<Rightarrow>
                    Inl (TRPCError INTERNAL_SERVER_ERROR
                      (''[OpenAI Issue] '' @ (if exn_message x \<noteq> [] then exn_message x else exn_toString x)))
                | Inr v \<Rightarrow> Inr v)))"


subsection \<open>Disambiguation of a completion\<close>

record function_call_payload =
  name :: "string option"
  arguments :: "string option"

record response_message =
  role :: string
  content :: "string option"
  function_call :: "function_call_payload option"

record choice =
  message :: response_message
  finish_reason :: "string option"

record completion_response =
  choices :: "choice list option"

datatype 'n chat_output =
    Message string string "string option"
  | FunctionCall string "'n json"

definition falsy :: "string option \<Rightarrow> bool" where
  "falsy v = (case v of None \<Rightarrow> True | Some s \<Rightarrow> s = [])"

definition parseChatGenerateFCOutput ::
  "(string \<Rightarrow> 'n json option) \<Rightarrow> bool \<Rightarrow> response_message \<Rightarrow> js_error + 'n chat_output" where
  "parseChatGenerateFCOutput JSON_parse isFunctionsCall msg =
     (if \<not> isFunctionsCall then
        Inl (TRPCError INTERNAL_SERVER_ERROR
          ''[OpenAI Issue] Received a function call without a function call request'')
      else if content msg \<noteq> None then
        Inl (TRPCError INTERNAL_SERVER_ERROR ''[OpenAI Issue] Expected a function call, got a message'')
      else
        (case function_call msg of
           None \<Rightarrow>
             Inl (TRPCError INTERNAL_SERVER_ERROR
               ''[OpenAI Issue] Issue with the function call, missing name or arguments'')
         | Some fc \<Rightarrow>
             if falsy (name fc) \<or> falsy (arguments fc) then
               Inl (TRPCError INTERNAL_SERVER_ERROR
                 ''[OpenAI Issue] Issue with the function call, missing name or arguments'')
             else
               (case JSON_parse (the (arguments fc)) of
                  None \<Rightarrow>
                    Inl (TRPCError INTERNAL_SERVER_ERROR
                      ''[OpenAI Issue] Issue with the function call, arguments are not valid JSON'')
                | Some fcArgs \<Rightarrow> Inr (FunctionCall (the (name fc)) fcArgs))))"

definition parseChatGenerateOutput ::
  "response_message \<Rightarrow> string option \<Rightarrow> js_error + 'n chat_output" where
  "parseChatGenerateOutput msg fr =
     (case content msg of
        None \<Rightarrow> Inl (TRPCError INTERNAL_SERVER_ERROR ''[OpenAI Issue] Expected a message, got a null message'')
      | Some c \<Rightarrow> Inr (Message (role msg) c fr))"

text \<open>The message of the count check: \<open>${wireCompletions?.choices?.length}\<close>.\<close>

definition expected_one :: "nat option \<Rightarrow> js_error" where
  "expected_one len =
     TRPCError INTERNAL_SERVER_ERROR
       (''[OpenAI Issue] Expected 1 completion, got '' @
          (case len of None \<Rightarrow> ''undefined'' | Some k \<Rightarrow> string_of_nat k))"

text \<open>\<open>!!functions && functions.length > 0\<close>.\<close>

definition isFunctionsCall :: "function_def list option \<Rightarrow> bool" where
  "isFunctionsCall fs = (case fs of None \<Rightarrow> False | Some l \<Rightarrow> length l > 0)"

definition chatGenerateWithFunctions ::
  "env \<Rightarrow> (string \<Rightarrow> request request_init \<Rightarrow> js_error + ('n, completion_response option) response) \<Rightarrow>
   ('n \<Rightarrow> bool) \<Rightarrow> ('n \<Rightarrow> string) \<Rightarrow> (string \<Rightarrow> 'n json option) \<Rightarrow>
   access \<Rightarrow> model \<Rightarrow> history_message list \<Rightarrow> function_def list option \<Rightarrow> js_error + 'n chat_output" where
  "chatGenerateWithFunctions e fetch nt ns JSON_parse a m history fs =
     (case openaiPOST e fetch nt ns a
             (openAIChatCompletionPayload m history (if isFunctionsCall fs then fs else None) 1 False)
             ''/v1/chat/completions'' of
        Inl err \<Rightarrow> Inl err
      | Inr wireCompletions \<Rightarrow>
          (case wireCompletions of
             None \<Rightarrow> Inl (expected_one None)
           | Some w \<Rightarrow>
               (case choices w of
                  None \<Rightarrow> Inl (expected_one None)
                | Some [c] \<Rightarrow>
                    if finish_reason c = Some ''function_call''
                    then parseChatGenerateFCOutput JSON_parse (isFunctionsCall fs) (message c)
                    else parseChatGenerateOutput (message c) (finish_reason c)
                | Some cs \<Rightarrow> Inl (expected_one (Some (length cs))))))"

subsection \<open>The model list\<close>







subsection \<open>A reference reading of \<open>JSON.parse\<close>\<close>

text \<open>
  The router calls \<open>JSON.parse\<close> and the theorems below hold of any function in its
  place. The examples need its value at a concrete text, so the grammar of JSON is written
  out here: a lexer, and a pushdown automaton over the tokens. A number is the exact value
  of its literal, as a rational (the rounding to a double is left out); a string holds the
  code units of \<open>char\<close>, so a \<open>\u\<close> escape above \<open>00ff\<close> is outside the reading; a key
  that occurs twice keeps its place and takes the later value.
\<close>

definition is_ws :: "char \<Rightarrow> bool" where
  "is_ws c = (c = CHR '' '' \<or> c = CHR 0x09 \<or> c = CHR 0x0A \<or> c = CHR 0x0D)"

definition is_digit :: "char \<Rightarrow> bool" where
  "is_digit c = (CHR ''0'' \<le> c \<and> c \<le> CHR ''9'')"

definition is_num_char :: "char \<Rightarrow> bool" where
  "is_num_char c = (is_digit c \<or> c = CHR ''-'' \<or> c = CHR ''+'' \<or> c = CHR ''.'' \<or> c = CHR ''e'' \<or> c = CHR ''E'')"

definition is_lower :: "char \<Rightarrow> bool" where
  "is_lower c = (CHR ''a'' \<le> c \<and> c \<le> CHR ''z'')"

definition nat_of_digits :: "string \<Rightarrow> nat" where
  "nat_of_digits ds = foldl (\<lambda>k c. 10 * k + (of_char c - 48)) 0 ds"

definition scale10 :: "int \<Rightarrow> rat" where
  "scale10 e = (if 0 \<le> e then 10 ^ nat e else 1 / 10 ^ nat (- e))"

definition parse_number :: "string \<Rightarrow> rat option" where
  "parse_number s =
     (let neg = (s \<noteq> [] \<and> hd s = CHR ''-'');
          s1 = (if neg then tl s else s);
          ds = takeWhile is_digit s1;
          s2 = dropWhile is_digit s1;
          has_frac = (s2 \<noteq> [] \<and> hd s2 = CHR ''.'');
          fs = (if has_frac then takeWhile is_digit (tl s2) else []);
          s3 = (if has_frac then dropWhile is_digit (tl s2) else s2);
          has_exp = (s3 \<noteq> [] \<and> (hd s3 = CHR ''e'' \<or> hd s3 = CHR ''E''));
          s4 = (if has_exp then tl s3 else s3);
          eneg = (has_exp \<and> s4 \<noteq> [] \<and> hd s4 = CHR ''-'');
          s5 = (if has_exp \<and> s4 \<noteq> [] \<and> (hd s4 = CHR ''-'' \<or> hd s4 = CHR ''+'') then tl s4 else s4);
          es = (if has_exp then takeWhile is_digit s5 else []);
          s6 = (if has_exp then dropWhile is_digit s5 else s5);
          e = (if eneg then - int (nat_of_digits es) else int (nat_of_digits es))
      in if ds \<noteq> [] \<and> (hd ds \<noteq> CHR ''0'' \<or> length ds = 1)
            \<and> (if has_frac then fs \<noteq> [] else True) \<and> (if has_exp then es \<noteq> [] else True) \<and> s6 = []
         then Some ((if neg then - 1 else 1) * of_nat (nat_of_digits (ds @ fs)) * scale10 (e - int (length fs)))
         else None)"

datatype 'n token = TLBrace | TRBrace | TLBracket | TRBracket | TColon | TComma | TValue "'n json"

definition hex_digit :: "char \<Rightarrow> nat option" where
  "hex_digit c =
     (if is_digit c then Some (of_char c - 48)
      else if CHR ''a'' \<le> c \<and> c \<le> CHR ''f'' then Some (of_char c - 87)
      else if CHR ''A'' \<le> c \<and> c \<le> CHR ''F'' then Some (of_char c - 55)
      else None)"

definition hex4 :: "string \<Rightarrow> nat option" where
  "hex4 s =
     (if length s = 4 \<and> list_all (\<lambda>c. hex_digit c \<noteq> None) s
      then Some (foldl (\<lambda>k c. 16 * k + the (hex_digit c)) 0 s) else None)"

definition unescape :: "char \<Rightarrow> char option" where
  "unescape c =
     (if c = CHR 0x22 \<or> c = CHR 0x5C \<or> c = CHR ''/'' then Some c
      else if c = CHR ''b'' then Some (CHR 0x08)
      else if c = CHR ''f'' then Some (CHR 0x0C)
      else if c = CHR ''n'' then Some (CHR 0x0A)
      else if c = CHR ''r'' then Some (CHR 0x0D)
      else if c = CHR ''t'' then Some (CHR 0x09)
      else None)"

fun lex_string :: "string \<Rightarrow> string \<Rightarrow> (string \<times> string) option" where
  "lex_string [] acc = None"
| "lex_string (c # cs) acc =
     (if c = CHR 0x22 then Some (rev acc, cs)
      else if c = CHR 0x5C then
        (case cs of
           [] \<Rightarrow> None
         | e # cs' \<Rightarrow>
             if e = CHR ''u'' then
               (case hex4 (take 4 cs') of
                  None \<Rightarrow> None
                | Some k \<Rightarrow> if k < 256 then lex_string (drop 4 cs') (char_of k # acc) else None)
             else
               (case unescape e of
                  None \<Rightarrow> None
                | Some d \<Rightarrow> lex_string cs' (d # acc)))
      else if c < CHR 0x20 then None
      else lex_string cs (c # acc))"

lemma lex_string_shorter: "lex_string cs acc = Some (s, rest) \<Longrightarrow> length rest < length cs"
proof (induction cs acc rule: lex_string.induct)
  case (1 acc)
  then show ?case by simp
next
  case (2 c cs acc)
  show ?case
  proof (cases "c = CHR 0x22")
    case True
    with "2.prems" show ?thesis by simp
  next
    case nq: False
    show ?thesis
    proof (cases "c = CHR 0x5C")
      case bs: True
      show ?thesis
      proof (cases cs)
        case Nil
        with "2.prems" nq bs show ?thesis by simp
      next
        case (Cons e cs')
        show ?thesis
        proof (cases "e = CHR ''u''")
          case u: True
          from "2.prems" nq bs Cons u obtain k where
            k: "hex4 (take 4 cs') = Some k" "k < 256"
            "lex_string (drop 4 cs') (char_of k # acc) = Some (s, rest)"
            by (simp split: option.splits if_splits)
          from "2.IH"(1)[OF nq bs Cons u k(1) k(2) k(3)] Cons show ?thesis by simp
        next
          case nu: False
          from "2.prems" nq bs Cons nu obtain d where
            d: "unescape e = Some d" "lex_string cs' (d # acc) = Some (s, rest)"
            by (simp split: option.splits)
          from "2.IH"(2)[OF nq bs Cons nu d(1) d(2)] Cons show ?thesis by simp
        qed
      qed
    next
      case nbs: False
      from "2.prems" nq nbs have c: "\<not> c < CHR 0x20" "lex_string cs (c # acc) = Some (s, rest)"
        by (simp_all split: if_splits)
      from "2.IH"(3)[OF nq nbs c(1) c(2)] show ?thesis by simp
    qed
  qed
qed

function lex :: "string \<Rightarrow> rat token list option" where
  "lex [] = Some []"
| "lex (c # cs) =
     (if is_ws c then lex cs
      else if c = CHR ''{'' then map_option (Cons TLBrace) (lex cs)
      else if c = CHR ''}'' then map_option (Cons TRBrace) (lex cs)
      else if c = CHR ''['' then map_option (Cons TLBracket) (lex cs)
      else if c = CHR '']'' then map_option (Cons TRBracket) (lex cs)
      else if c = CHR '':'' then map_option (Cons TColon) (lex cs)
      else if c = CHR '','' then map_option (Cons TComma) (lex cs)
      else if c = CHR 0x22 then
        (case lex_string cs [] of
           None \<Rightarrow> None
         | Some (s, rest) \<Rightarrow> map_option (Cons (TValue (JString s))) (lex rest))
      else if is_digit c \<or> c = CHR ''-'' then
        (case parse_number (c # takeWhile is_num_char cs) of
           None \<Rightarrow> None
         | Some q \<Rightarrow> map_option (Cons (TValue (JNumber q))) (lex (dropWhile is_num_char cs)))
      else if is_lower c then
        (let w = c # takeWhile is_lower cs in
         if w = ''true'' then map_option (Cons (TValue (JBool True))) (lex (dropWhile is_lower cs))
         else if w = ''false'' then map_option (Cons (TValue (JBool False))) (lex (dropWhile is_lower cs))
         else if w = ''null'' then map_option (Cons (TValue JNull)) (lex (dropWhile is_lower cs))
         else None)
      else None)"
  by pat_completeness auto
termination
  by (relation "measure length")
     (auto simp: less_Suc_eq_le length_dropWhile_le dest: lex_string_shorter)

datatype 'n frame = FArr "'n json list" | FObj "(string \<times> 'n json) list" string

datatype 'n pstate =
    Want_value "'n frame list"
  | Want_value_or_close "'n frame list"
  | Want_key_or_close "'n frame list"
  | Want_key "(string \<times> 'n json) list" "'n frame list"
  | Want_colon "(string \<times> 'n json) list" string "'n frame list"
  | Have_value "'n json" "'n frame list"

fun begin_value :: "'n frame list \<Rightarrow> 'n token \<Rightarrow> 'n pstate option" where
  "begin_value fs (TValue v) = Some (Have_value v fs)"
| "begin_value fs TLBracket = Some (Want_value_or_close fs)"
| "begin_value fs TLBrace = Some (Want_key_or_close fs)"
| "begin_value fs _ = None"

fun step :: "'n pstate \<Rightarrow> 'n token \<Rightarrow> 'n pstate option" where
  "step (Want_value fs) t = begin_value fs t"
| "step (Want_value_or_close fs) t =
     (if t = TRBracket then Some (Have_value (JArray []) fs) else begin_value (FArr [] # fs) t)"
| "step (Want_key_or_close fs) t =
     (case t of
        TRBrace \<Rightarrow> Some (Have_value (JObject []) fs)
      | TValue (JString k) \<Rightarrow> Some (Want_colon [] k fs)
      | _ \<Rightarrow> None)"
| "step (Want_key kvs fs) t =
     (case t of TValue (JString k) \<Rightarrow> Some (Want_colon kvs k fs) | _ \<Rightarrow> None)"
| "step (Want_colon kvs k fs) t =
     (if t = TColon then Some (Want_value (FObj kvs k # fs)) else None)"
| "step (Have_value v []) t = None"
| "step (Have_value v (FArr items # fs)) t =
     (case t of
        TComma \<Rightarrow> Some (Want_value (FArr (v # items) # fs))
      | TRBracket \<Rightarrow> Some (Have_value (JArray (rev (v # items))) fs)
      | _ \<Rightarrow> None)"
| "step (Have_value v (FObj kvs k # fs)) t =
     (case t of
        TComma \<Rightarrow> Some (Want_key (AList.update k v kvs) fs)
      | TRBrace \<Rightarrow> Some (Have_value (JObject (AList.update k v kvs)) fs)
      | _ \<Rightarrow> None)"

fun run :: "'n pstate \<Rightarrow> 'n token list \<Rightarrow> 'n pstate option" where
  "run st [] = Some st"
| "run st (t # ts) = (case step st t of None \<Rightarrow> None | Some st' \<Rightarrow> run st' ts)"

definition json_parse :: "string \<Rightarrow> rat json option" where
  "json_parse s =
     (case lex s of
        None \<Rightarrow> None
      | Some ts \<Rightarrow>
          (case run (Want_value []) ts of
             Some (Have_value v []) \<Rightarrow> Some v
           | _ \<Rightarrow> None))"

subsection \<open>Vocabulary of the properties\<close>

text \<open>The code of a thrown \<open>TRPCError\<close>; nothing for a result or another error.\<close>

definition trpc_code_of :: "js_error + 'a \<Rightarrow> trpc_code option" where
  "trpc_code_of r = (case r of Inl (TRPCError c m) \<Rightarrow> Some c | _ \<Rightarrow> None)"

text \<open>
  The specification's "scheme present", read as RFC 3986 writes a scheme: a letter, then
  letters, digits, \<open>+\<close>, \<open>-\<close> or \<open>.\<close>, followed by \<open>://\<close>. The code does not use it.
\<close>

definition is_alpha :: "char \<Rightarrow> bool" where
  "is_alpha c = ((CHR ''a'' \<le> c \<and> c \<le> CHR ''z'') \<or> (CHR ''A'' \<le> c \<and> c \<le> CHR ''Z''))"

definition is_scheme_char :: "char \<Rightarrow> bool" where
  "is_scheme_char c = (is_alpha c \<or> is_digit c \<or> c = CHR ''+'' \<or> c = CHR ''-'' \<or> c = CHR ''.'')"

definition has_url_scheme :: "string \<Rightarrow> bool" where
  "has_url_scheme s =
     (let nm = takeWhile is_scheme_char s
      in nm \<noteq> [] \<and> is_alpha (hd nm) \<and> startsWith (dropWhile is_scheme_char s) ''://'')"





text \<open>
  A request body is well formed when it carries both \<open>functions\<close> and
  \<open>function_call: "auto"\<close>, the list not empty, or neither. A \<open>fetch\<close> guarded by
  a test of the body refuses every request that fails the test: a call that gives the
  same result under the guard sends no such request.
\<close>

definition functions_well_formed :: "request \<Rightarrow> bool" where
  "functions_well_formed p =
     (case wire_functions p of
        None \<Rightarrow> wire_function_call p = None
      | Some l \<Rightarrow> l \<noteq> [] \<and> wire_function_call p = Some ''auto'')"

definition sends_only ::
  "('b \<Rightarrow> bool) \<Rightarrow> (string \<Rightarrow> 'b request_init \<Rightarrow> js_error + 'r) \<Rightarrow>
   string \<Rightarrow> 'b request_init \<Rightarrow> js_error + 'r" where
  "sends_only ok fetch u i =
     (case init_body i of
        None \<Rightarrow> Inl (Error ''not sent'')
      | Some b \<Rightarrow> if ok b then fetch u i else Inl (Error ''not sent''))"

text \<open>
  A \<open>fetch\<close> that answers one request only, the given URL with the given options, and
  refuses every other: a call that gives the same result under it sends no other request.
\<close>

definition only_request ::
  "string \<Rightarrow> 'b request_init \<Rightarrow> (string \<Rightarrow> 'b request_init \<Rightarrow> js_error + 'r) \<Rightarrow>
   string \<Rightarrow> 'b request_init \<Rightarrow> js_error + 'r" where
  "only_request u0 i0 fetch u i = (if u = u0 \<and> i = i0 then fetch u i else Inl (Error ''not sent''))"

text \<open>The four errors of \<open>parseChatGenerateFCOutput\<close>, by name.\<close>

definition without_request :: js_error where
  "without_request = TRPCError INTERNAL_SERVER_ERROR
     ''[OpenAI Issue] Received a function call without a function call request''"

definition got_a_message :: js_error where
  "got_a_message = TRPCError INTERNAL_SERVER_ERROR
     ''[OpenAI Issue] Expected a function call, got a message''"

definition missing_name_or_arguments :: js_error where
  "missing_name_or_arguments = TRPCError INTERNAL_SERVER_ERROR
     ''[OpenAI Issue] Issue with the function call, missing name or arguments''"

definition not_valid_json :: js_error where
  "not_valid_json = TRPCError INTERNAL_SERVER_ERROR
     ''[OpenAI Issue] Issue with the function call, arguments are not valid JSON''"

lemmas fc_errors = not_valid_json_def missing_name_or_arguments_def got_a_message_def
  without_request_def

subsection \<open>Concrete inputs of the examples\<close>

definition dq :: char where
  "dq = CHR 0x22"

definition no_env :: env where
  "no_env = \<lparr>OPENAI_API_KEY = None, OPENAI_API_ORG_ID = None, OPENAI_API_HOST = None,
             HELICONE_API_KEY = None\<rparr>"

definition access_of_host :: "string \<Rightarrow> access" where
  "access_of_host h =
     \<lparr>oaiKey = ''sk-1'', oaiOrg = [], oaiHost = h, heliKey = [], moderationCheck = False\<rparr>"

definition gpt4 :: model where
  "gpt4 = \<lparr>model_id = ''gpt-4'', model_temperature = None, maxTokens = None\<rparr>"

definition a_function :: function_def where
  "a_function = \<lparr>fname = ''f'', fdescription = None, fparameters = None\<rparr>"

definition fc_message :: "string option \<Rightarrow> string \<Rightarrow> string \<Rightarrow> response_message" where
  "fc_message c nm args =
     \<lparr>role = ''assistant'', content = c,
      function_call = Some \<lparr>name = Some nm, arguments = Some args\<rparr>\<rparr>"

definition fc_choice :: "string option \<Rightarrow> string \<Rightarrow> string \<Rightarrow> choice" where
  "fc_choice c nm args = \<lparr>message = fc_message c nm args, finish_reason = Some ''function_call''\<rparr>"

text \<open>A \<open>fetch\<close> that answers every request with the same response.\<close>

definition answering :: "'r \<Rightarrow> string \<Rightarrow> 'b request_init \<Rightarrow> js_error + 'r" where
  "answering r u i = Inr r"

definition completions :: "choice list \<Rightarrow> (rat, completion_response option) response" where
  "completions cs = IsOk (Inr (Some \<lparr>choices = Some cs\<rparr>))"

text \<open>Truth and print of a number in the examples, which carry naturals only.\<close>

definition rat_truthy :: "rat \<Rightarrow> bool" where
  "rat_truthy q = (q \<noteq> 0)"

definition rat_toString :: "rat \<Rightarrow> string" where
  "rat_toString q = string_of_nat (nat \<lfloor>q\<rfloor>)"



text \<open>
  A \<open>fetch\<close> that rejects every request with an error naming what the body carries of
  \<open>functions\<close> and \<open>function_call\<close>.
\<close>

definition reporting_functions ::
  "string \<Rightarrow> request request_init \<Rightarrow> js_error + (rat, completion_response option) response" where
  "reporting_functions u i =
     Inl (Error
       (case init_body i of
          None \<Rightarrow> ''no body''
        | Some b \<Rightarrow>
            (case wire_functions b of
               None \<Rightarrow> if wire_function_call b = None then ''neither field'' else ''function_call alone''
             | Some l \<Rightarrow>
                 if l = [] then ''empty functions''
                 else if wire_function_call b = Some ''auto'' then ''functions and function_call auto''
                 else ''functions alone'')))"

text \<open>A POST of the examples, by the response that \<open>fetch\<close> answers with.\<close>

definition post_answer :: "(rat, completion_response option) response \<Rightarrow> js_error + completion_response option" where
  "post_answer r =
     openaiPOST no_env (answering r) rat_truthy rat_toString (access_of_host [])
       (openAIChatCompletionPayload gpt4 [] None 1 False) ''/v1/chat/completions''"

lemmas json_eval = json_parse_def is_ws_def is_digit_def is_num_char_def is_lower_def parse_number_def
  nat_of_digits_def scale10_def dq_def unescape_def hex4_def hex_digit_def

lemmas example_eval = no_env_def access_of_host_def gpt4_def a_function_def fc_message_def
  fc_choice_def answering_def completions_def

section \<open>Properties\<close>

subsection \<open>Facts shared by the properties\<close>

lemma openAIAccess_example:
  "openAIAccess no_env (access_of_host []) ''/v1/chat/completions'' =
     Inr \<lparr>headers = [(''Authorization'', ''Bearer sk-1''), (''Content-Type'', ''application/json'')],
          url = ''https://api.openai.com/v1/chat/completions''\<rparr>"
  by (simp add: openAIAccess_def example_eval resolve_host_def or_else_def env_or_def
      startsWith_def endsWith_def)

lemma openaiPOST_answer:
  "openaiPOST no_env (answering r) nt ns (access_of_host []) body ''/v1/chat/completions'' =
     (case r of
        NotOk statusText j \<Rightarrow>
          (let error = (case j of Inl x \<Rightarrow> None | Inr v \<Rightarrow> Some v) in
           if truthy nt error then
             (case error_text nt ns (the error) of
                None \<Rightarrow> Inl TypeError
              | Some t \<Rightarrow> Inl (TRPCError BAD_REQUEST (''[OpenAI Issue] '' @ t)))
           else Inl (TRPCError BAD_REQUEST (''[Issue] '' @ statusText)))
      | IsOk j \<Rightarrow>
          (case j of
             Inl x \<Rightarrow>
               Inl (TRPCError INTERNAL_SERVER_ERROR
                 (''[OpenAI Issue] '' @ (if exn_message x \<noteq> [] then exn_message x else exn_toString x)))
           | Inr v \<Rightarrow> Inr v))"
  by (simp add: openaiPOST_def openAIAccess_example answering_def split: response.splits)

lemma openaiPOST_IsOk:
  "openaiPOST no_env (answering (IsOk (Inr v))) nt ns (access_of_host []) body ''/v1/chat/completions'' = Inr v"
  by (simp add: openaiPOST_answer)

lemma chat_single_choice:
  assumes "openaiPOST e fetch nt ns a
             (openAIChatCompletionPayload m history (if isFunctionsCall fs then fs else None) 1 False)
             ''/v1/chat/completions'' = Inr (Some w)"
    and "choices w = Some [c]"
  shows "chatGenerateWithFunctions e fetch nt ns JSON_parse a m history fs =
           (if finish_reason c = Some ''function_call''
            then parseChatGenerateFCOutput JSON_parse (isFunctionsCall fs) (message c)
            else parseChatGenerateOutput (message c) (finish_reason c))"
  using assms by (simp add: chatGenerateWithFunctions_def)

lemma parse_example:
  "json_parse (''{'' @ [dq] @ ''a'' @ [dq] @ '':1}'') = Some (JObject [(''a'', JNumber 1)])"
  by (simp add: json_eval)

lemma parse_not_json: "json_parse ''not json'' = None"
  by (simp add: json_eval)

lemma parseFC_cases:
  "parseChatGenerateFCOutput JSON_parse isF msg =
     (if \<not> isF then Inl without_request
      else if content msg \<noteq> None then Inl got_a_message
      else case function_call msg of
             None \<Rightarrow> Inl missing_name_or_arguments
           | Some fc \<Rightarrow>
               if falsy (name fc) \<or> falsy (arguments fc) then Inl missing_name_or_arguments
               else (case JSON_parse (the (arguments fc)) of
                       None \<Rightarrow> Inl not_valid_json
                     | Some v \<Rightarrow> Inr (FunctionCall (the (name fc)) v)))"
  by (simp add: parseChatGenerateFCOutput_def fc_errors split: option.splits)

lemma string_of_nat_2: "string_of_nat (Suc (Suc 0)) = ''2''"
  by (simp add: string_of_nat.simps digit_char_def)

lemma openaiPOST_sends_only:
  assumes "ok body"
  shows "openaiPOST e (sends_only ok fetch) nt ns a body p = openaiPOST e fetch nt ns a body p"
proof (cases "openAIAccess e a p")
  case (Inl err)
  then show ?thesis by (simp add: openaiPOST_def)
next
  case (Inr r)
  have "sends_only ok fetch (url r) \<lparr>init_headers = headers r, init_method = ''POST'', init_body = Some body\<rparr>
      = fetch (url r) \<lparr>init_headers = headers r, init_method = ''POST'', init_body = Some body\<rparr>"
    using assms by (simp add: sends_only_def)
  with Inr show ?thesis by (simp add: openaiPOST_def)
qed

lemma openaiPOST_response:
  assumes "openAIAccess e a p = Inr r"
    and "fetch (url r) \<lparr>init_headers = headers r, init_method = ''POST'', init_body = Some body\<rparr> = Inr resp"
  shows "openaiPOST e fetch nt ns a body p =
     (case resp of
        NotOk statusText j \<Rightarrow>
          (let error = (case j of Inl x \<Rightarrow> None | Inr v \<Rightarrow> Some v) in
           if truthy nt error then
             (case error_text nt ns (the error) of
                None \<Rightarrow> Inl TypeError
              | Some t \<Rightarrow> Inl (TRPCError BAD_REQUEST (''[OpenAI Issue] '' @ t)))
           else Inl (TRPCError BAD_REQUEST (''[Issue] '' @ statusText)))
      | IsOk j \<Rightarrow>
          (case j of
             Inl x \<Rightarrow>
               Inl (TRPCError INTERNAL_SERVER_ERROR
                 (''[OpenAI Issue] '' @ (if exn_message x \<noteq> [] then exn_message x else exn_toString x)))
           | Inr v \<Rightarrow> Inr v))"
  using assms by (simp add: openaiPOST_def split: response.splits)


















lemma openaiPOST_only_request:
  assumes "openAIAccess e a p = Inr r"
  shows "openaiPOST e (only_request (url r)
            \<lparr>init_headers = headers r, init_method = ''POST'', init_body = Some body\<rparr> fetch) nt ns a body p
         = openaiPOST e fetch nt ns a body p"
  using assms by (simp add: openaiPOST_def only_request_def)

lemma openaiPOST_rejected:
  assumes "openAIAccess e a p = Inr r"
    and "fetch (url r) \<lparr>init_headers = headers r, init_method = ''POST'', init_body = Some body\<rparr> = Inl err"
  shows "openaiPOST e fetch nt ns a body p = Inl err"
  using assms by (simp add: openaiPOST_def)

subsection \<open>C1: a well-formed function call is decoded\<close>

text \<open>
  C1. The provider answered with one choice whose finish reason is \<open>function_call\<close>, whose
  content is null and whose payload has a non-empty name and a non-empty argument string
  that \<open>JSON.parse\<close> decodes to an object, and the caller offered at least one function.
  Then the disambiguation, and with it the whole call, returns the function-call variant
  with that name and the decoded object. The witness is the example of the specification:
  name \<open>f\<close>, arguments \<open>{"a":1}\<close>.
\<close>

theorem function_call_decoded:
  assumes "openaiPOST e fetch nt ns a
             (openAIChatCompletionPayload m history (if isFunctionsCall fs then fs else None) 1 False)
             ''/v1/chat/completions'' = Inr (Some w)"
    and "choices w = Some [c]" and "finish_reason c = Some ''function_call''"
    and "fs = Some (f # l)"
    and "content (message c) = None" and "function_call (message c) = Some fc"
    and "name fc = Some nm" and "nm \<noteq> []"
    and "arguments fc = Some args" and "args \<noteq> []"
    and "JSON_parse args = Some (JObject kvs)"
  shows "parseChatGenerateFCOutput JSON_parse True (message c) = Inr (FunctionCall nm (JObject kvs)) \<and>
         chatGenerateWithFunctions e fetch nt ns JSON_parse a m history fs =
           Inr (FunctionCall nm (JObject kvs))"
proof -
  have fc: "parseChatGenerateFCOutput JSON_parse True (message c) = Inr (FunctionCall nm (JObject kvs))"
    using assms(5-11) by (simp add: parseChatGenerateFCOutput_def falsy_def)
  have "isFunctionsCall fs" using assms(4) by (simp add: isFunctionsCall_def)
  with chat_single_choice [OF assms(1,2)] assms(3) fc show ?thesis by simp
qed

theorem function_call_decoded_witness:
  "parseChatGenerateFCOutput json_parse True (fc_message None ''f'' (''{'' @ [dq] @ ''a'' @ [dq] @ '':1}''))
     = Inr (FunctionCall ''f'' (JObject [(''a'', JNumber 1)])) \<and>
   chatGenerateWithFunctions no_env
     (answering (completions [fc_choice None ''f'' (''{'' @ [dq] @ ''a'' @ [dq] @ '':1}'')]))
     rat_truthy rat_toString json_parse (access_of_host []) gpt4 [] (Some [a_function])
     = Inr (FunctionCall ''f'' (JObject [(''a'', JNumber 1)]))"
proof -
  let ?args = "''{'' @ [dq] @ ''a'' @ [dq] @ '':1}''"
  let ?c = "fc_choice None ''f'' ?args"
  have post: "openaiPOST no_env (answering (completions [?c])) rat_truthy rat_toString (access_of_host [])
      (openAIChatCompletionPayload gpt4 [] (if isFunctionsCall (Some [a_function]) then Some [a_function] else None) 1 False)
      ''/v1/chat/completions'' = Inr (Some \<lparr>choices = Some [?c]\<rparr>)"
    unfolding completions_def by (rule openaiPOST_IsOk)
  have args_ne: "?args \<noteq> []" by simp
  from function_call_decoded [OF post, where c = ?c and f = a_function and l = "[]"
      and fc = "\<lparr>name = Some ''f'', arguments = Some ?args\<rparr>" and nm = "''f''" and args = ?args
      and JSON_parse = json_parse, OF _ _ _ _ _ _ _ _ args_ne parse_example]
  show ?thesis by (simp add: fc_choice_def fc_message_def)
qed

subsection \<open>C2: a response without exactly one choice\<close>

text \<open>
  C2. The provider answered the POST with a list of choices whose length is not one. Then
  the call fails with the \<open>INTERNAL_SERVER_ERROR\<close> that reports the number of completions
  received, whatever the choices hold and whatever \<open>JSON.parse\<close> would do: no message is
  looked at. The witness is a response with two choices.
\<close>

theorem wrong_choice_count:
  assumes "openaiPOST e fetch nt ns a
             (openAIChatCompletionPayload m history (if isFunctionsCall fs then fs else None) 1 False)
             ''/v1/chat/completions'' = Inr (Some w)"
    and "choices w = Some cs" and "length cs \<noteq> 1"
  shows "chatGenerateWithFunctions e fetch nt ns JSON_parse a m history fs =
           Inl (TRPCError INTERNAL_SERVER_ERROR
             (''[OpenAI Issue] Expected 1 completion, got '' @ string_of_nat (length cs)))"
proof (cases cs)
  case Nil
  with assms show ?thesis by (simp add: chatGenerateWithFunctions_def expected_one_def)
next
  case (Cons c cs')
  with assms(3) obtain d ds where "cs' = d # ds" by (cases cs') auto
  with Cons assms show ?thesis by (simp add: chatGenerateWithFunctions_def expected_one_def)
qed

theorem wrong_choice_count_witness:
  "chatGenerateWithFunctions no_env
     (answering (completions [fc_choice None ''f'' ''{}'', fc_choice None ''f'' ''{}'']))
     rat_truthy rat_toString json_parse (access_of_host []) gpt4 [] (Some [a_function])
   = Inl (TRPCError INTERNAL_SERVER_ERROR ''[OpenAI Issue] Expected 1 completion, got 2'')"
proof -
  let ?cs = "[fc_choice None ''f'' ''{}'', fc_choice None ''f'' ''{}'']"
  have post: "openaiPOST no_env (answering (completions ?cs)) rat_truthy rat_toString (access_of_host [])
      (openAIChatCompletionPayload gpt4 [] (if isFunctionsCall (Some [a_function]) then Some [a_function] else None) 1 False)
      ''/v1/chat/completions'' = Inr (Some \<lparr>choices = Some ?cs\<rparr>)"
    unfolding completions_def by (rule openaiPOST_IsOk)
  have len: "length ?cs \<noteq> 1" by simp
  from wrong_choice_count [OF post _ len, where JSON_parse = json_parse]
  show ?thesis by (simp add: string_of_nat_2)
qed

subsection \<open>C3: arguments that are not JSON\<close>

text \<open>
  C3, as the claim states it, fails: the claim classifies the failure of the decoding as a
  bad request, distinct in kind from the other failures of the disambiguation. The code
  throws it with the same code as the other three, \<open>INTERNAL_SERVER_ERROR\<close>; only the
  message tells it apart. At the arguments \<open>not json\<close> the code of the error is not
  \<open>BAD_REQUEST\<close>, and it is the code of the error for a call that offered no function.
\<close>

theorem decode_failure_code:
  "json_parse ''not json'' = None \<and>
   parseChatGenerateFCOutput json_parse True (fc_message None ''f'' ''not json'') =
     Inl (TRPCError INTERNAL_SERVER_ERROR
       ''[OpenAI Issue] Issue with the function call, arguments are not valid JSON'') \<and>
   trpc_code_of (parseChatGenerateFCOutput json_parse True (fc_message None ''f'' ''not json''))
     \<noteq> Some BAD_REQUEST \<and>
   trpc_code_of (parseChatGenerateFCOutput json_parse True (fc_message None ''f'' ''not json'')) =
   trpc_code_of (parseChatGenerateFCOutput json_parse False (fc_message None ''f'' ''not json''))"
  by (simp add: parse_not_json parseChatGenerateFCOutput_def fc_message_def falsy_def trpc_code_of_def)

text \<open>
  C3, amended. When \<open>JSON.parse\<close> rejects the argument string, the disambiguation fails
  with an \<open>INTERNAL_SERVER_ERROR\<close> in every case, and the error is the one with the message
  "arguments are not valid JSON" exactly when the earlier checks pass: functions were
  offered, the content is null, and name and arguments are non-empty.
\<close>

theorem invalid_arguments_rejected:
  assumes "function_call msg = Some fc" and "arguments fc = Some args" and "JSON_parse args = None"
  shows "(\<exists>t. parseChatGenerateFCOutput JSON_parse isF msg = Inl (TRPCError INTERNAL_SERVER_ERROR t)) \<and>
         (parseChatGenerateFCOutput JSON_parse isF msg = Inl not_valid_json) =
           (isF \<and> content msg = None \<and> \<not> falsy (name fc) \<and> args \<noteq> [])"
  using assms by (auto simp: parseFC_cases fc_errors falsy_def split: option.splits)

theorem invalid_arguments_rejected_witness:
  "(\<exists>t. parseChatGenerateFCOutput json_parse True (fc_message None ''f'' ''not json'') =
        Inl (TRPCError INTERNAL_SERVER_ERROR t)) \<and>
   parseChatGenerateFCOutput json_parse True (fc_message None ''f'' ''not json'') = Inl not_valid_json"
  using invalid_arguments_rejected [of "fc_message None ''f'' ''not json''"
      "\<lparr>name = Some ''f'', arguments = Some ''not json''\<rparr>" "''not json''" json_parse True]
    parse_not_json
  by (simp add: fc_message_def falsy_def fc_errors)

subsection \<open>C4: the functions of the request\<close>

text \<open>
  C4, as the claim states it, fails: the payload builder tests its \<open>functions\<close> argument
  for truth, and an empty array is true. Given the empty list it sends
  \<open>functions: []\<close> and \<open>function_call: "auto"\<close>.
\<close>

theorem empty_functions_sent:
  "wire_functions (openAIChatCompletionPayload gpt4 [] (Some []) 1 False) = Some [] \<and>
   wire_function_call (openAIChatCompletionPayload gpt4 [] (Some []) 1 False) = Some ''auto''"
  by (simp add: openAIChatCompletionPayload_def)

text \<open>
  C4, amended. The builder includes \<open>functions\<close>, with \<open>function_call: "auto"\<close>, exactly
  when its argument is not null, the empty list included. Its caller
  \<open>chatGenerateWithFunctions\<close> passes null for an absent or empty list, so the request it
  sends carries both fields when the list is non-empty and neither otherwise. The last
  conjunct says so of the call itself: once the access is resolved there is a body with
  exactly these two fields such that, for every \<open>fetch\<close>, the call sends no request but
  the POST of that body (its result is unchanged when every other request is refused) and
  does send it (when \<open>fetch\<close> rejects that request, the rejection is the result). The
  witness runs the call against a \<open>fetch\<close> that reports the two fields it was given.
\<close>

theorem functions_in_payload:
  "wire_functions (openAIChatCompletionPayload m h fs k s) = fs \<and>
   wire_function_call (openAIChatCompletionPayload m h fs k s) =
     (if fs = None then None else Some ''auto'') \<and>
   wire_functions (openAIChatCompletionPayload m h (if isFunctionsCall fs then fs else None) 1 False) =
     (if fs = None \<or> fs = Some [] then None else fs) \<and>
   wire_function_call (openAIChatCompletionPayload m h (if isFunctionsCall fs then fs else None) 1 False) =
     (if fs = None \<or> fs = Some [] then None else Some ''auto'') \<and>
   chatGenerateWithFunctions e (sends_only functions_well_formed fetch) nt ns JSON_parse a m h fs =
     chatGenerateWithFunctions e fetch nt ns JSON_parse a m h fs \<and>
   (openAIAccess e a ''/v1/chat/completions'' = Inr r \<longrightarrow>
      (\<exists>b. wire_functions b = (if fs = None \<or> fs = Some [] then None else fs) \<and>
           wire_function_call b = (if fs = None \<or> fs = Some [] then None else Some ''auto'') \<and>
           (\<forall>f. chatGenerateWithFunctions e
                   (only_request (url r)
                      \<lparr>init_headers = headers r, init_method = ''POST'', init_body = Some b\<rparr> f)
                   nt ns JSON_parse a m h fs =
                 chatGenerateWithFunctions e f nt ns JSON_parse a m h fs) \<and>
           (\<forall>f err. f (url r) \<lparr>init_headers = headers r, init_method = ''POST'', init_body = Some b\<rparr>
                       = Inl err \<longrightarrow>
                 chatGenerateWithFunctions e f nt ns JSON_parse a m h fs = Inl err)))"
proof -
  let ?p = "openAIChatCompletionPayload m h (if isFunctionsCall fs then fs else None) 1 False"
  have wf: "functions_well_formed ?p"
    by (cases fs) (auto simp: functions_well_formed_def openAIChatCompletionPayload_def isFunctionsCall_def)
  have post: "openaiPOST e (sends_only functions_well_formed fetch) nt ns a ?p ''/v1/chat/completions'' =
        openaiPOST e fetch nt ns a ?p ''/v1/chat/completions''"
    using wf by (rule openaiPOST_sends_only)
  have chat: "chatGenerateWithFunctions e (sends_only functions_well_formed fetch) nt ns JSON_parse a m h fs =
     chatGenerateWithFunctions e fetch nt ns JSON_parse a m h fs"
    unfolding chatGenerateWithFunctions_def post ..
  have isf: "isFunctionsCall fs = (\<not> (fs = None \<or> fs = Some []))"
    by (cases fs) (auto simp: isFunctionsCall_def)
  have f3: "wire_functions ?p = (if fs = None \<or> fs = Some [] then None else fs)"
    using isf by (cases fs) (simp_all add: openAIChatCompletionPayload_def)
  have f4: "wire_function_call ?p = (if fs = None \<or> fs = Some [] then None else Some ''auto'')"
    using isf by (cases fs) (simp_all add: openAIChatCompletionPayload_def)
  have f12: "wire_functions (openAIChatCompletionPayload m h fs k s) = fs \<and>
     wire_function_call (openAIChatCompletionPayload m h fs k s) =
       (if fs = None then None else Some ''auto'')"
    by (cases fs) (simp_all add: openAIChatCompletionPayload_def)
  have sent: "openAIAccess e a ''/v1/chat/completions'' = Inr r \<longrightarrow>
      (\<exists>b. wire_functions b = (if fs = None \<or> fs = Some [] then None else fs) \<and>
           wire_function_call b = (if fs = None \<or> fs = Some [] then None else Some ''auto'') \<and>
           (\<forall>f. chatGenerateWithFunctions e
                   (only_request (url r)
                      \<lparr>init_headers = headers r, init_method = ''POST'', init_body = Some b\<rparr> f)
                   nt ns JSON_parse a m h fs =
                 chatGenerateWithFunctions e f nt ns JSON_parse a m h fs) \<and>
           (\<forall>f err. f (url r) \<lparr>init_headers = headers r, init_method = ''POST'', init_body = Some b\<rparr>
                       = Inl err \<longrightarrow>
                 chatGenerateWithFunctions e f nt ns JSON_parse a m h fs = Inl err))"
  proof
    assume acc: "openAIAccess e a ''/v1/chat/completions'' = Inr r"
    let ?i = "\<lparr>init_headers = headers r, init_method = ''POST'', init_body = Some ?p\<rparr>"
    have g: "\<forall>f. chatGenerateWithFunctions e (only_request (url r) ?i f) nt ns JSON_parse a m h fs =
                 chatGenerateWithFunctions e f nt ns JSON_parse a m h fs"
    proof
      fix f :: "string \<Rightarrow> request request_init \<Rightarrow> js_error + ('a, completion_response option) response"
      show "chatGenerateWithFunctions e (only_request (url r) ?i f) nt ns JSON_parse a m h fs =
                 chatGenerateWithFunctions e f nt ns JSON_parse a m h fs"
        unfolding chatGenerateWithFunctions_def
          openaiPOST_only_request [OF acc, where body = ?p and fetch = f and nt = nt and ns = ns] ..
    qed
    have rj: "\<forall>f err. f (url r) ?i = Inl err \<longrightarrow>
                 chatGenerateWithFunctions e f nt ns JSON_parse a m h fs = Inl err"
    proof (intro allI impI)
      fix f :: "string \<Rightarrow> request request_init \<Rightarrow> js_error + ('a, completion_response option) response"
      fix err
      assume rej: "f (url r) ?i = Inl err"
      from openaiPOST_rejected [where fetch = f and nt = nt and ns = ns and body = ?p, OF acc rej]
      show "chatGenerateWithFunctions e f nt ns JSON_parse a m h fs = Inl err"
        by (simp add: chatGenerateWithFunctions_def)
    qed
    from f3 f4 g rj show "\<exists>b. wire_functions b = (if fs = None \<or> fs = Some [] then None else fs) \<and>
           wire_function_call b = (if fs = None \<or> fs = Some [] then None else Some ''auto'') \<and>
           (\<forall>f. chatGenerateWithFunctions e
                   (only_request (url r)
                      \<lparr>init_headers = headers r, init_method = ''POST'', init_body = Some b\<rparr> f)
                   nt ns JSON_parse a m h fs =
                 chatGenerateWithFunctions e f nt ns JSON_parse a m h fs) \<and>
           (\<forall>f err. f (url r) \<lparr>init_headers = headers r, init_method = ''POST'', init_body = Some b\<rparr>
                       = Inl err \<longrightarrow>
                 chatGenerateWithFunctions e f nt ns JSON_parse a m h fs = Inl err)"
      by (intro exI [of _ ?p] conjI)
  qed
  from f12 f3 f4 chat sent show ?thesis by (intro conjI) (simp_all only:)
qed

theorem functions_in_payload_witness:
  "wire_functions (openAIChatCompletionPayload gpt4 [] (Some [a_function]) 1 False) = Some [a_function] \<and>
   wire_function_call (openAIChatCompletionPayload gpt4 [] (Some [a_function]) 1 False) = Some ''auto'' \<and>
   wire_functions (openAIChatCompletionPayload gpt4 []
     (if isFunctionsCall (Some []) then Some [] else None) 1 False) = None \<and>
   wire_function_call (openAIChatCompletionPayload gpt4 []
     (if isFunctionsCall (Some []) then Some [] else None) 1 False) = None \<and>
   chatGenerateWithFunctions no_env reporting_functions rat_truthy rat_toString json_parse
     (access_of_host []) gpt4 [] (Some [a_function]) = Inl (Error ''functions and function_call auto'') \<and>
   chatGenerateWithFunctions no_env reporting_functions rat_truthy rat_toString json_parse
     (access_of_host []) gpt4 [] (Some []) = Inl (Error ''neither field'') \<and>
   chatGenerateWithFunctions no_env reporting_functions rat_truthy rat_toString json_parse
     (access_of_host []) gpt4 [] None = Inl (Error ''neither field'')"
proof -
  let ?r = "\<lparr>headers = [(''Authorization'', ''Bearer sk-1''), (''Content-Type'', ''application/json'')],
          url = ''https://api.openai.com/v1/chat/completions''\<rparr>"
  note t = functions_in_payload [where m = gpt4 and h = "[]" and k = 1 and s = False and e = no_env
      and fetch = reporting_functions and nt = rat_truthy and ns = rat_toString
      and JSON_parse = json_parse and a = "access_of_host []" and r = ?r]
  have sent: "\<And>fs. \<exists>b. wire_functions b = (if fs = None \<or> fs = Some [] then None else fs) \<and>
           wire_function_call b = (if fs = None \<or> fs = Some [] then None else Some ''auto'') \<and>
           (\<forall>f err. f (url ?r) \<lparr>init_headers = headers ?r, init_method = ''POST'', init_body = Some b\<rparr>
                       = Inl err \<longrightarrow>
                 chatGenerateWithFunctions no_env f rat_truthy rat_toString json_parse
                   (access_of_host []) gpt4 [] fs = Inl err)"
    using t openAIAccess_example by blast
  have rep: "chatGenerateWithFunctions no_env reporting_functions rat_truthy rat_toString json_parse
       (access_of_host []) gpt4 [] fs =
     Inl (Error (if fs = None \<or> fs = Some [] then ''neither field''
                 else ''functions and function_call auto''))" for fs
  proof -
    from sent [of fs] obtain b where
      b: "wire_functions b = (if fs = None \<or> fs = Some [] then None else fs)"
         "wire_function_call b = (if fs = None \<or> fs = Some [] then None else Some ''auto'')"
      and rj: "\<And>f err. f (url ?r) \<lparr>init_headers = headers ?r, init_method = ''POST'', init_body = Some b\<rparr>
                       = Inl err \<Longrightarrow>
                 chatGenerateWithFunctions no_env f rat_truthy rat_toString json_parse
                   (access_of_host []) gpt4 [] fs = Inl err"
      by blast
    have "reporting_functions (url ?r) \<lparr>init_headers = headers ?r, init_method = ''POST'', init_body = Some b\<rparr>
        = Inl (Error (if fs = None \<or> fs = Some [] then ''neither field''
                 else ''functions and function_call auto''))"
      using b by (cases fs) (auto simp: reporting_functions_def)
    from rj [where f = reporting_functions, OF this] show ?thesis .
  qed
  from t [of "Some [a_function]"] t [of "Some []"] rep [of "Some [a_function]"] rep [of "Some []"] rep [of None]
  show ?thesis by simp
qed

subsection \<open>C5: the host and the URL\<close>

text \<open>
  C5. The claim holds of the intent and not of the code. The code means to give every
  host a scheme, and tests for one by \<open>startsWith('http')\<close>; a bare host that begins with
  these four letters slips through. The host \<open>httpbin.org\<close> has no scheme and resolves
  to \<open>httpbin.org/v1/models\<close>, a URL that does not begin with \<open>https://\<close>: the code
  evaluated at the failing input.
\<close>

theorem host_without_scheme_kept:
  "\<not> has_url_scheme ''httpbin.org'' \<and>
   resolve_host no_env (access_of_host ''httpbin.org'') = ''httpbin.org'' \<and>
   openAIAccess no_env (access_of_host ''httpbin.org'') ''/v1/models'' =
     Inr \<lparr>headers = [(''Authorization'', ''Bearer sk-1''), (''Content-Type'', ''application/json'')],
          url = ''httpbin.org/v1/models''\<rparr> \<and>
   \<not> startsWith ''httpbin.org/v1/models'' ''https://''"
  by (simp add: has_url_scheme_def is_scheme_char_def is_alpha_def is_digit_def
      openAIAccess_def example_eval resolve_host_def or_else_def env_or_def
      startsWith_def endsWith_def)

text \<open>
  What the code does guarantee of the URL, whenever \<open>openAIAccess\<close> returns: a host
  that does not start with \<open>http\<close> is prefixed with \<open>https://\<close>; when the host (after
  that) ends with a slash and the path starts with one, exactly one of the two is
  dropped; otherwise the URL is the host followed by the path. The second half of the
  claim is this: host \<open>https://x.com/\<close> and path \<open>/v1/models\<close> give
  \<open>https://x.com/v1/models\<close>.
\<close>

theorem host_normalised:
  assumes "openAIAccess e a p = Inr r"
    and "h1 = (if startsWith (resolve_host e a) ''http'' then resolve_host e a
               else ''https://'' @ resolve_host e a)"
  shows "(\<not> startsWith (resolve_host e a) ''http'' \<longrightarrow> startsWith (url r) ''https://'') \<and>
         (\<forall>h q. h1 = h @ ''/'' \<and> p = ''/'' @ q \<longrightarrow> url r = h @ ''/'' @ q) \<and>
         (\<not> (endsWith h1 ''/'' \<and> startsWith p ''/'') \<longrightarrow> url r = h1 @ p)"
proof -
  have u: "url r = (if endsWith h1 ''/'' \<and> startsWith p ''/'' then butlast h1 else h1) @ p"
    using assms by (auto simp: openAIAccess_def Let_def split: if_splits)
  have a1: "\<not> startsWith (resolve_host e a) ''http'' \<longrightarrow> startsWith (url r) ''https://''"
  proof
    assume n: "\<not> startsWith (resolve_host e a) ''http''"
    then have h1: "h1 = ''https://'' @ resolve_host e a" using assms(2) by simp
    show "startsWith (url r) ''https://''"
    proof (cases "resolve_host e a = []")
      case True
      with h1 u show ?thesis by (simp add: startsWith_def endsWith_def)
    next
      case False
      then have "butlast h1 = ''https://'' @ butlast (resolve_host e a)"
        using h1 by (simp add: butlast_append)
      with h1 u show ?thesis by (auto simp: startsWith_def)
    qed
  qed
  have a2: "\<forall>h q. h1 = h @ ''/'' \<and> p = ''/'' @ q \<longrightarrow> url r = h @ ''/'' @ q"
    using u by (auto simp: startsWith_def endsWith_def)
  from a1 a2 u show ?thesis by simp
qed

theorem host_normalised_witness:
  "openAIAccess no_env (access_of_host ''https://x.com/'') ''/v1/models'' =
     Inr \<lparr>headers = [(''Authorization'', ''Bearer sk-1''), (''Content-Type'', ''application/json'')],
          url = ''https://x.com/v1/models''\<rparr> \<and>
   openAIAccess no_env (access_of_host ''x.com'') ''/v1/models'' =
     Inr \<lparr>headers = [(''Authorization'', ''Bearer sk-1''), (''Content-Type'', ''application/json'')],
          url = ''https://x.com/v1/models''\<rparr> \<and>
   startsWith ''https://x.com/v1/models'' ''https://''"
proof -
  let ?H = "[(''Authorization'', ''Bearer sk-1''), (''Content-Type'', ''application/json'')]"
  have 1: "openAIAccess no_env (access_of_host ''https://x.com/'') ''/v1/models'' =
     Inr \<lparr>headers = ?H, url = ''https://x.com/v1/models''\<rparr>"
    by (simp add: openAIAccess_def example_eval resolve_host_def or_else_def env_or_def
      startsWith_def endsWith_def)
  have 2: "openAIAccess no_env (access_of_host ''x.com'') ''/v1/models'' =
     Inr \<lparr>headers = ?H, url = ''https://x.com/v1/models''\<rparr>"
    by (simp add: openAIAccess_def example_eval resolve_host_def or_else_def env_or_def
      startsWith_def endsWith_def)
  from host_normalised [OF 2 refl] 1 2 show ?thesis
    by (simp add: example_eval resolve_host_def or_else_def env_or_def startsWith_def)
qed

subsection \<open>C6: a function call that nobody asked for\<close>

text \<open>
  C6. When the caller offered no function, the disambiguation of a function call fails
  with the \<open>INTERNAL_SERVER_ERROR\<close> "Received a function call without a function call
  request", for every message; and so does the whole call when the single choice has the
  finish reason \<open>function_call\<close> and the list of functions is absent or empty.
\<close>

theorem no_functions_offered:
  "parseChatGenerateFCOutput JSON_parse False msg =
     Inl (TRPCError INTERNAL_SERVER_ERROR
       ''[OpenAI Issue] Received a function call without a function call request'') \<and>
   (openaiPOST e fetch nt ns a
        (openAIChatCompletionPayload m history (if isFunctionsCall fs then fs else None) 1 False)
        ''/v1/chat/completions'' = Inr (Some w) \<and>
    choices w = Some [c] \<and> finish_reason c = Some ''function_call'' \<and> (fs = None \<or> fs = Some [])
    \<longrightarrow> chatGenerateWithFunctions e fetch nt ns JSON_parse a m history fs =
          Inl (TRPCError INTERNAL_SERVER_ERROR
            ''[OpenAI Issue] Received a function call without a function call request''))"
proof -
  have p: "\<And>msg. parseChatGenerateFCOutput JSON_parse False msg =
     Inl (TRPCError INTERNAL_SERVER_ERROR
       ''[OpenAI Issue] Received a function call without a function call request'')"
    by (simp add: parseChatGenerateFCOutput_def)
  show ?thesis
  proof (intro conjI impI)
    show "parseChatGenerateFCOutput JSON_parse False msg =
     Inl (TRPCError INTERNAL_SERVER_ERROR
       ''[OpenAI Issue] Received a function call without a function call request'')" by (rule p)
  next
    assume h: "openaiPOST e fetch nt ns a
        (openAIChatCompletionPayload m history (if isFunctionsCall fs then fs else None) 1 False)
        ''/v1/chat/completions'' = Inr (Some w) \<and>
      choices w = Some [c] \<and> finish_reason c = Some ''function_call'' \<and> (fs = None \<or> fs = Some [])"
    then have "\<not> isFunctionsCall fs" by (auto simp: isFunctionsCall_def)
    with h chat_single_choice [of e fetch nt ns a m history fs w c JSON_parse] p
    show "chatGenerateWithFunctions e fetch nt ns JSON_parse a m history fs =
          Inl (TRPCError INTERNAL_SERVER_ERROR
            ''[OpenAI Issue] Received a function call without a function call request'')"
      by simp
  qed
qed

theorem no_functions_offered_witness:
  "parseChatGenerateFCOutput json_parse False (fc_message None ''f'' ''{}'') =
     Inl (TRPCError INTERNAL_SERVER_ERROR
       ''[OpenAI Issue] Received a function call without a function call request'') \<and>
   chatGenerateWithFunctions no_env (answering (completions [fc_choice None ''f'' ''{}'']))
     rat_truthy rat_toString json_parse (access_of_host []) gpt4 [] None =
     Inl (TRPCError INTERNAL_SERVER_ERROR
       ''[OpenAI Issue] Received a function call without a function call request'')"
proof -
  let ?c = "fc_choice None ''f'' ''{}''"
  have post: "openaiPOST no_env (answering (completions [?c])) rat_truthy rat_toString (access_of_host [])
      (openAIChatCompletionPayload gpt4 [] (if isFunctionsCall None then None else None) 1 False)
      ''/v1/chat/completions'' = Inr (Some \<lparr>choices = Some [?c]\<rparr>)"
    unfolding completions_def by (rule openaiPOST_IsOk)
  from no_functions_offered [of json_parse "fc_message None ''f'' ''{}''" no_env
      "answering (completions [?c])" rat_truthy rat_toString "access_of_host []" gpt4 "[]" None
      "\<lparr>choices = Some [?c]\<rparr>" ?c] post
  show ?thesis by (simp add: fc_choice_def)
qed

subsection \<open>C7: content and function call exclude each other\<close>

text \<open>
  C7. A function-call message whose content is not null makes the disambiguation fail
  with an \<open>INTERNAL_SERVER_ERROR\<close> whose message starts with \<open>[OpenAI Issue]\<close> (when
  functions were offered, "Expected a function call, got a message"). And every call that
  succeeds had one choice and returns one variant: the function call when the finish
  reason is \<open>function_call\<close>, and then the content was null; the message otherwise, and
  then it carries the content.
\<close>

theorem content_with_function_call:
  "(content msg \<noteq> None \<longrightarrow>
      (\<exists>t. parseChatGenerateFCOutput JSON_parse isF msg =
             Inl (TRPCError INTERNAL_SERVER_ERROR (''[OpenAI Issue] '' @ t))) \<and>
      (isF \<longrightarrow> parseChatGenerateFCOutput JSON_parse isF msg = Inl got_a_message)) \<and>
   (chatGenerateWithFunctions e fetch nt ns JSON_parse a m history fs = Inr out \<longrightarrow>
      (\<exists>w c. openaiPOST e fetch nt ns a
                (openAIChatCompletionPayload m history (if isFunctionsCall fs then fs else None) 1 False)
                ''/v1/chat/completions'' = Inr (Some w) \<and>
              choices w = Some [c] \<and>
              (if finish_reason c = Some ''function_call''
               then content (message c) = None \<and> (\<exists>nm v. out = FunctionCall nm v)
               else (\<exists>txt. content (message c) = Some txt \<and>
                           out = Message (role (message c)) txt (finish_reason c)))))"
proof (intro conjI impI)
  assume "content msg \<noteq> None"
  then show "\<exists>t. parseChatGenerateFCOutput JSON_parse isF msg =
             Inl (TRPCError INTERNAL_SERVER_ERROR (''[OpenAI Issue] '' @ t))"
    by (cases isF) (simp_all add: parseChatGenerateFCOutput_def)
next
  assume "content msg \<noteq> None" and isF
  then show "parseChatGenerateFCOutput JSON_parse isF msg = Inl got_a_message"
    by (simp add: parseFC_cases)
next
  let ?post = "openaiPOST e fetch nt ns a
                (openAIChatCompletionPayload m history (if isFunctionsCall fs then fs else None) 1 False)
                ''/v1/chat/completions''"
  assume ok: "chatGenerateWithFunctions e fetch nt ns JSON_parse a m history fs = Inr out"
  then obtain w where w: "?post = Inr (Some w)"
    by (auto simp: chatGenerateWithFunctions_def split: sum.splits option.splits)
  from ok w obtain cs where cs: "choices w = Some cs"
    by (auto simp: chatGenerateWithFunctions_def split: option.splits)
  from ok w cs obtain c where c: "cs = [c]"
    by (auto simp: chatGenerateWithFunctions_def split: list.splits)
  note r = chat_single_choice [OF w, of c JSON_parse] 
  have "if finish_reason c = Some ''function_call''
        then content (message c) = None \<and> (\<exists>nm v. out = FunctionCall nm v)
        else (\<exists>txt. content (message c) = Some txt \<and>
                     out = Message (role (message c)) txt (finish_reason c))"
  proof (cases "finish_reason c = Some ''function_call''")
    case True
    with r cs c ok have "parseChatGenerateFCOutput JSON_parse (isFunctionsCall fs) (message c) = Inr out"
      by simp
    with True show ?thesis
      by (auto simp: parseFC_cases split: if_splits option.splits)
  next
    case False
    with r cs c ok have "parseChatGenerateOutput (message c) (finish_reason c) = Inr out"
      by simp
    with False show ?thesis
      by (auto simp: parseChatGenerateOutput_def split: option.splits)
  qed
  with w cs c show "\<exists>w c. ?post = Inr (Some w) \<and> choices w = Some [c] \<and>
              (if finish_reason c = Some ''function_call''
               then content (message c) = None \<and> (\<exists>nm v. out = FunctionCall nm v)
               else (\<exists>txt. content (message c) = Some txt \<and>
                           out = Message (role (message c)) txt (finish_reason c)))"
    by blast
qed

theorem content_with_function_call_witness:
  "parseChatGenerateFCOutput json_parse True (fc_message (Some ''hi'') ''f'' ''{}'') = Inl got_a_message \<and>
   (\<exists>t. parseChatGenerateFCOutput json_parse False (fc_message (Some ''hi'') ''f'' ''{}'') =
          Inl (TRPCError INTERNAL_SERVER_ERROR (''[OpenAI Issue] '' @ t)))"
  using content_with_function_call [of "fc_message (Some ''hi'') ''f'' ''{}''" json_parse True]
    content_with_function_call [of "fc_message (Some ''hi'') ''f'' ''{}''" json_parse False]
  by (simp add: fc_message_def)

subsection \<open>C8: the model list, filtered and sorted\<close>



subsection \<open>C9: the errors of a POST\<close>

text \<open>
  C9, as the claim states it, fails: a body that parses as JSON does not always put the
  provider's text into the message. The code tests the parsed body for truth, so a body
  that parses to a falsy value (\<open>null\<close>, \<open>false\<close>, \<open>0\<close>, the empty string) is treated
  as one that did not parse. For the body \<open>null\<close> the message carries the status text,
  not the stringified body \<open>null\<close>.
\<close>

theorem null_body_status_text:
  "post_answer (NotOk ''Bad Request'' (Inr JNull)) = Inl (TRPCError BAD_REQUEST ''[Issue] Bad Request'') \<and>
   toString rat_toString JNull = Some ''null''"
  by (simp add: post_answer_def openaiPOST_answer)

text \<open>
  C9, amended. The request was sent and answered. With a status that is not a success:
  when the body does not parse, or parses to a falsy value, the call fails with a
  \<open>BAD_REQUEST\<close> that carries the status text; when it parses to a truthy value, the value
  chosen for the message is the nested \<open>error.message\<close> if truthy, else the \<open>error\<close> field
  if truthy, else the parsed body, and when that value has a string the call fails with a
  \<open>BAD_REQUEST\<close> that carries it (\<open>Unknown error\<close> when the string of the body is
  empty). Nothing is said of a chosen value that has no string. With a success status and
  a body that fails to decode, the call fails with an \<open>INTERNAL_SERVER_ERROR\<close> that
  carries the message of the decoding error (its name when the message is empty); its
  code is not that of a bad request.
\<close>

theorem post_failures:
  assumes "openAIAccess e a p = Inr r"
    and "fetch (url r) \<lparr>init_headers = headers r, init_method = ''POST'', init_body = Some body\<rparr> = Inr resp"
  shows "(resp = NotOk st (Inl x) \<longrightarrow>
            openaiPOST e fetch nt ns a body p = Inl (TRPCError BAD_REQUEST (''[Issue] '' @ st))) \<and>
         (resp = NotOk st (Inr v) \<and> \<not> truthy nt (Some v) \<longrightarrow>
            openaiPOST e fetch nt ns a body p = Inl (TRPCError BAD_REQUEST (''[Issue] '' @ st))) \<and>
         (resp = NotOk st (Inr v) \<and> truthy nt (Some v) \<and>
          get_prop (get_prop (Some v) ''error'') ''message'' = Some w \<and> truthy nt (Some w) \<and>
          toString ns w = Some t \<longrightarrow>
            openaiPOST e fetch nt ns a body p = Inl (TRPCError BAD_REQUEST (''[OpenAI Issue] '' @ t))) \<and>
         (resp = NotOk st (Inr v) \<and> truthy nt (Some v) \<and>
          \<not> truthy nt (get_prop (get_prop (Some v) ''error'') ''message'') \<and>
          get_prop (Some v) ''error'' = Some w \<and> truthy nt (Some w) \<and>
          toString ns w = Some t \<longrightarrow>
            openaiPOST e fetch nt ns a body p = Inl (TRPCError BAD_REQUEST (''[OpenAI Issue] '' @ t))) \<and>
         (resp = NotOk st (Inr v) \<and> truthy nt (Some v) \<and>
          \<not> truthy nt (get_prop (get_prop (Some v) ''error'') ''message'') \<and>
          \<not> truthy nt (get_prop (Some v) ''error'') \<and>
          toString ns v = Some t \<longrightarrow>
            openaiPOST e fetch nt ns a body p =
              Inl (TRPCError BAD_REQUEST (''[OpenAI Issue] '' @ (if t \<noteq> [] then t else ''Unknown error'')))) \<and>
         (resp = IsOk (Inl x) \<longrightarrow>
            openaiPOST e fetch nt ns a body p =
              Inl (TRPCError INTERNAL_SERVER_ERROR
                (''[OpenAI Issue] '' @ (if exn_message x \<noteq> [] then exn_message x else exn_name x))) \<and>
            trpc_code_of (openaiPOST e fetch nt ns a body p) \<noteq> Some BAD_REQUEST)"
proof -
  note r = openaiPOST_response [where fetch = fetch and nt = nt and ns = ns, OF assms]
  have 1: "resp = NotOk st (Inl x) \<longrightarrow>
            openaiPOST e fetch nt ns a body p = Inl (TRPCError BAD_REQUEST (''[Issue] '' @ st))"
    using r by simp
  have 2: "resp = NotOk st (Inr v) \<and> \<not> truthy nt (Some v) \<longrightarrow>
            openaiPOST e fetch nt ns a body p = Inl (TRPCError BAD_REQUEST (''[Issue] '' @ st))"
    using r by simp
  have 3: "resp = NotOk st (Inr v) \<and> truthy nt (Some v) \<and>
          get_prop (get_prop (Some v) ''error'') ''message'' = Some w \<and> truthy nt (Some w) \<and>
          toString ns w = Some t \<longrightarrow>
            openaiPOST e fetch nt ns a body p = Inl (TRPCError BAD_REQUEST (''[OpenAI Issue] '' @ t))"
    using r by (auto simp: error_text_def Let_def)
  have 4: "resp = NotOk st (Inr v) \<and> truthy nt (Some v) \<and>
          \<not> truthy nt (get_prop (get_prop (Some v) ''error'') ''message'') \<and>
          get_prop (Some v) ''error'' = Some w \<and> truthy nt (Some w) \<and>
          toString ns w = Some t \<longrightarrow>
            openaiPOST e fetch nt ns a body p = Inl (TRPCError BAD_REQUEST (''[OpenAI Issue] '' @ t))"
    using r by (auto simp: error_text_def Let_def)
  have 5: "resp = NotOk st (Inr v) \<and> truthy nt (Some v) \<and>
          \<not> truthy nt (get_prop (get_prop (Some v) ''error'') ''message'') \<and>
          \<not> truthy nt (get_prop (Some v) ''error'') \<and>
          toString ns v = Some t \<longrightarrow>
            openaiPOST e fetch nt ns a body p =
              Inl (TRPCError BAD_REQUEST (''[OpenAI Issue] '' @ (if t \<noteq> [] then t else ''Unknown error'')))"
    using r by (auto simp: error_text_def Let_def)
  have 6: "resp = IsOk (Inl x) \<longrightarrow>
            openaiPOST e fetch nt ns a body p =
              Inl (TRPCError INTERNAL_SERVER_ERROR
                (''[OpenAI Issue] '' @ (if exn_message x \<noteq> [] then exn_message x else exn_name x))) \<and>
            trpc_code_of (openaiPOST e fetch nt ns a body p) \<noteq> Some BAD_REQUEST"
    using r by (simp add: exn_toString_def trpc_code_of_def)
  show ?thesis
    by (intro conjI) (rule 1 2 3 4 5 6)+
qed

theorem post_failures_witness:
  "post_answer (NotOk ''Unauthorized''
      (Inr (JObject [(''error'', JObject [(''message'', JString ''Incorrect API key'')])]))) =
     Inl (TRPCError BAD_REQUEST ''[OpenAI Issue] Incorrect API key'') \<and>
   post_answer (NotOk ''Bad Gateway'' (Inl \<lparr>exn_name = ''SyntaxError'', exn_message = ''Unexpected token <''\<rparr>)) =
     Inl (TRPCError BAD_REQUEST ''[Issue] Bad Gateway'') \<and>
   post_answer (NotOk ''Bad Request'' (Inr (JObject [(''error'', JString ''quota'')]))) =
     Inl (TRPCError BAD_REQUEST ''[OpenAI Issue] quota'') \<and>
   post_answer (NotOk ''Bad Request'' (Inr (JArray []))) =
     Inl (TRPCError BAD_REQUEST ''[OpenAI Issue] Unknown error'') \<and>
   post_answer (IsOk (Inl \<lparr>exn_name = ''SyntaxError'', exn_message = ''Unexpected token <''\<rparr>)) =
     Inl (TRPCError INTERNAL_SERVER_ERROR ''[OpenAI Issue] Unexpected token <'')"
proof -
  let ?body = "openAIChatCompletionPayload gpt4 [] None 1 False"
  let ?r = "\<lparr>headers = [(''Authorization'', ''Bearer sk-1''), (''Content-Type'', ''application/json'')],
          url = ''https://api.openai.com/v1/chat/completions''\<rparr>"
  let ?x = "\<lparr>exn_name = ''SyntaxError'', exn_message = ''Unexpected token <''\<rparr>"
  let ?kvs = "[(''error'', JObject [(''message'', JString ''Incorrect API key'')])]"
  let ?ra = "NotOk ''Unauthorized'' (Inr (JObject ?kvs)) :: (rat, completion_response option) response"
  let ?rb = "NotOk ''Bad Gateway'' (Inl ?x) :: (rat, completion_response option) response"
  let ?rc = "IsOk (Inl ?x) :: (rat, completion_response option) response"
  let ?rd = "NotOk ''Bad Request'' (Inr (JObject [(''error'', JString ''quota'')]))
    :: (rat, completion_response option) response"
  let ?re = "NotOk ''Bad Request'' (Inr (JArray [])) :: (rat, completion_response option) response"
  have f: "\<And>resp :: (rat, completion_response option) response.
     answering resp (url ?r) \<lparr>init_headers = headers ?r, init_method = ''POST'', init_body = Some ?body\<rparr> = Inr resp"
    by (simp add: answering_def)
  note ta = post_failures [where fetch = "answering ?ra" and nt = rat_truthy and ns = rat_toString
      and body = ?body and resp = ?ra and st = "''Unauthorized''" and v = "JObject ?kvs"
      and w = "JString ''Incorrect API key''" and t = "''Incorrect API key''",
      OF openAIAccess_example f]
  have a: "post_answer ?ra = Inl (TRPCError BAD_REQUEST ''[OpenAI Issue] Incorrect API key'')"
    using ta [THEN conjunct2, THEN conjunct2, THEN conjunct1] by (simp add: post_answer_def)
  note tb = post_failures [where fetch = "answering ?rb" and nt = rat_truthy and ns = rat_toString
      and body = ?body and resp = ?rb and st = "''Bad Gateway''" and x = ?x,
      OF openAIAccess_example f]
  have b: "post_answer ?rb = Inl (TRPCError BAD_REQUEST ''[Issue] Bad Gateway'')"
    using tb [THEN conjunct1] by (simp add: post_answer_def)
  note tc = post_failures [where fetch = "answering ?rc" and nt = rat_truthy and ns = rat_toString
      and body = ?body and resp = ?rc and x = ?x,
      OF openAIAccess_example f]
  have c: "post_answer ?rc = Inl (TRPCError INTERNAL_SERVER_ERROR ''[OpenAI Issue] Unexpected token <'')"
    using tc [THEN conjunct2, THEN conjunct2, THEN conjunct2, THEN conjunct2, THEN conjunct2]
    by (simp add: post_answer_def)
  note td = post_failures [where fetch = "answering ?rd" and nt = rat_truthy and ns = rat_toString
      and body = ?body and resp = ?rd and st = "''Bad Request''"
      and v = "JObject [(''error'', JString ''quota'')]"
      and w = "JString ''quota''" and t = "''quota''",
      OF openAIAccess_example f]
  have d: "post_answer ?rd = Inl (TRPCError BAD_REQUEST ''[OpenAI Issue] quota'')"
    using td [THEN conjunct2, THEN conjunct2, THEN conjunct2, THEN conjunct1]
    by (simp add: post_answer_def)
  note te = post_failures [where fetch = "answering ?re" and nt = rat_truthy and ns = rat_toString
      and body = ?body and resp = ?re and st = "''Bad Request''"
      and v = "JArray []" and t = "[]",
      OF openAIAccess_example f]
  have e: "post_answer ?re = Inl (TRPCError BAD_REQUEST ''[OpenAI Issue] Unknown error'')"
    using te [THEN conjunct2, THEN conjunct2, THEN conjunct2, THEN conjunct2, THEN conjunct1]
    by (simp add: post_answer_def)
  from a b c d e show ?thesis by (intro conjI)
qed

subsection \<open>C10: an empty name or an empty argument string\<close>

text \<open>
  C10, as the claim states it, fails: an empty name does not always give the error
  "missing name or arguments". The two earlier checks come first, so a call that offered
  no function fails with "Received a function call without a function call request".
\<close>

theorem empty_name_without_request:
  "parseChatGenerateFCOutput json_parse False (fc_message None [] ''{}'') =
     Inl (TRPCError INTERNAL_SERVER_ERROR
       ''[OpenAI Issue] Received a function call without a function call request'') \<and>
   parseChatGenerateFCOutput json_parse False (fc_message None [] ''{}'') \<noteq>
     Inl (TRPCError INTERNAL_SERVER_ERROR
       ''[OpenAI Issue] Issue with the function call, missing name or arguments'')"
  by (simp add: parseChatGenerateFCOutput_def)

text \<open>
  C10, amended. A payload whose name or argument string is empty or absent makes the
  disambiguation fail with an \<open>INTERNAL_SERVER_ERROR\<close>; when functions were offered and
  the content is null the error is "missing name or arguments"; in no case is it the
  decoding error, and the result does not depend on \<open>JSON.parse\<close>, which is not called.
\<close>

theorem empty_name_or_arguments:
  assumes "function_call msg = Some fc" and "falsy (name fc) \<or> falsy (arguments fc)"
  shows "(isF \<and> content msg = None \<longrightarrow>
            parseChatGenerateFCOutput JSON_parse isF msg = Inl missing_name_or_arguments) \<and>
         (\<exists>t. parseChatGenerateFCOutput JSON_parse isF msg = Inl (TRPCError INTERNAL_SERVER_ERROR t)) \<and>
         parseChatGenerateFCOutput JSON_parse isF msg \<noteq> Inl not_valid_json \<and>
         (\<forall>P. parseChatGenerateFCOutput P isF msg = parseChatGenerateFCOutput JSON_parse isF msg)"
  using assms by (auto simp: parseFC_cases fc_errors)

theorem empty_name_or_arguments_witness:
  "parseChatGenerateFCOutput json_parse True (fc_message None ''f'' []) = Inl missing_name_or_arguments \<and>
   parseChatGenerateFCOutput json_parse True (fc_message None ''f'' []) \<noteq> Inl not_valid_json \<and>
   json_parse [] = None"
  using empty_name_or_arguments [of "fc_message None ''f'' []"
      "\<lparr>name = Some ''f'', arguments = Some []\<rparr>" True json_parse]
  by (simp add: fc_message_def falsy_def json_eval fc_errors)

end
